theory Spec2Isabelle
  imports Complex_Main
begin

section \<open>The voice library's data, as the dispatcher reads it\<close>

text \<open>
  \<^verbatim>\<open>BasicStreamDispatcher.ts\<close> drives two objects of the voice library: a
  \<^verbatim>\<open>VoiceConnection\<close> and an \<^verbatim>\<open>AudioPlayer\<close>. The dispatcher reads their status fields,
  the disconnect reason, the close code and the counter \<^verbatim>\<open>rejoinAttempts\<close>; these are
  the fields kept here.
\<close>

datatype VoiceConnectionStatus = Signalling | Connecting | Ready | Disconnected | Destroyed

datatype VoiceConnectionDisconnectReason =
  WebSocketClose | AdapterUnavailable | EndpointRemoved | Manual

datatype AudioPlayerStatus = Idle | Buffering | Playing | Paused | AutoPaused

text \<open>
  A connection state object: \<^verbatim>\<open>reason\<close> and \<^verbatim>\<open>closeCode\<close> are \<^verbatim>\<open>undefined\<close>
  (\<open>None\<close>) on the states that do not carry them.
\<close>

record VoiceConnectionState =
  vc_status :: VoiceConnectionStatus
  reason :: "VoiceConnectionDisconnectReason option"
  closeCode :: "int option"

record AudioPlayerState =
  ap_status :: AudioPlayerStatus

record VoiceConnection =
  state :: VoiceConnectionState
  rejoinAttempts :: nat

record AudioPlayer =
  ap_state :: AudioPlayerState

section \<open>JavaScript numbers\<close>

text \<open>
  A JavaScript \<^verbatim>\<open>number\<close> is \<^verbatim>\<open>NaN\<close>, one of the two infinities, or a finite value.
  The finite values are among the reals; comparisons of finite values are exact.
\<close>

datatype number = NaN | Infinity | NegInfinity | Num real

text \<open>
  Arithmetic on finite values is the runtime's: a quotient is rounded to a double, and
  \<^verbatim>\<open>Math.pow\<close> is an approximation that the language leaves to the implementation
  and that can overflow. Neither is fixed here. The two operations that the dispatcher
  applies to finite values are parameters: \<open>fdiv x c\<close> is the runtime's \<open>x / c\<close> (finite
  for the divisor \<open>100\<close>) and \<open>fpow x y\<close> its \<^verbatim>\<open>Math.pow(x, y)\<close> on a finite base that
  is not negative.
\<close>

record arith =
  fdiv :: "real \<Rightarrow> real \<Rightarrow> real"
  fpow :: "real \<Rightarrow> real \<Rightarrow> number"

definition isNaN :: "number \<Rightarrow> bool" where
  "isNaN v = (v = NaN)"

text \<open>The comparison \<^verbatim>\<open>a < b\<close>: false as soon as one side is \<^verbatim>\<open>NaN\<close>.\<close>

fun js_lt :: "number \<Rightarrow> number \<Rightarrow> bool" where
  "js_lt NaN _ = False"
| "js_lt _ NaN = False"
| "js_lt (Num x) (Num y) = (x < y)"
| "js_lt (Num _) Infinity = True"
| "js_lt NegInfinity (Num _) = True"
| "js_lt NegInfinity Infinity = True"
| "js_lt _ _ = False"

definition js_gt :: "number \<Rightarrow> number \<Rightarrow> bool" where
  "js_gt a b = js_lt b a"

text \<open>
  \<^verbatim>\<open>value / c\<close> for a positive finite constant \<open>c\<close> (the call site uses \<open>100\<close>): the
  infinities and \<^verbatim>\<open>NaN\<close> are kept.
\<close>

fun js_div :: "arith \<Rightarrow> number \<Rightarrow> real \<Rightarrow> number" where
  "js_div a (Num x) c = Num (fdiv a x c)"
| "js_div a v c = v"

text \<open>
  \<^verbatim>\<open>Math.pow(base, y)\<close> for a positive exponent that is not an integer (the call
  site uses \<open>1.660964\<close>): a negative base gives \<^verbatim>\<open>NaN\<close>, both infinities give
  \<^verbatim>\<open>Infinity\<close>.
\<close>

fun Math_pow :: "arith \<Rightarrow> number \<Rightarrow> real \<Rightarrow> number" where
  "Math_pow a NaN y = NaN"
| "Math_pow a Infinity y = Infinity"
| "Math_pow a NegInfinity y = Infinity"
| "Math_pow a (Num x) y = (if x < 0 then NaN else fpow a x y)"

section \<open>Resources, events and the dispatcher\<close>

record VolumeTransformer =
  vt_volume :: number

text \<open>
  An audio resource. \<^verbatim>\<open>volume\<close> is present only on a resource created with
  \<^verbatim>\<open>inlineVolume: true\<close>; the getter \<^verbatim>\<open>volume\<close> of the dispatcher checks for it.
\<close>

record AudioResource =
  res_id :: nat
  res_volume :: "VolumeTransformer option"
  playbackDuration :: nat

datatype js_error = Error string | TypeError string

datatype VoiceEvent = VE_error js_error | VE_debug string | VE_start | VE_finish

text \<open>
  What the dispatcher does to the outside: the events it emits and its calls into the
  connection and the player, in order.
\<close>

datatype effect =
  Emit VoiceEvent
| ConnectionRejoin
| ConnectionDestroy
| PlayerStop
| PlayerPlay AudioResource

record StreamDispatcher =
  voiceConnection :: VoiceConnection
  audioPlayer :: AudioPlayer
  audioResource :: "AudioResource option"
  readyLock :: bool
  trace :: "effect list"

section \<open>Asynchronous functions\<close>

text \<open>
  An \<^verbatim>\<open>async\<close> function runs until its first \<^verbatim>\<open>await\<close>, where it leaves the
  dispatcher in some state and is suspended on a promise; when the promise settles it
  is resumed, on the dispatcher as it is by then (other handlers may have run in
  between). No function of the dispatcher awaits twice on one path.
\<close>

datatype settled = Resolved | Rejected js_error

datatype promise =
  EntersState VoiceConnectionStatus nat
| UtilWait nat

datatype completion = Done StreamDispatcher | Thrown js_error StreamDispatcher

datatype task =
  Finished completion
| Await StreamDispatcher promise "settled \<Rightarrow> StreamDispatcher \<Rightarrow> completion"

text \<open>
  Modelled from the spec: \<^verbatim>\<open>Util.wait\<close> of \<^verbatim>\<open>../utils/Util\<close> is not among the
  sources; it "suspends for" the given number of milliseconds, so its promise resolves
  and never rejects. \<^verbatim>\<open>entersState\<close> of the voice library resolves when the
  connection enters the status and rejects otherwise (on the timeout, in particular).
\<close>

fun can_settle :: "promise \<Rightarrow> settled \<Rightarrow> bool" where
  "can_settle (UtilWait ms) s = (s = Resolved)"
| "can_settle (EntersState st ms) s = True"

fun final_state :: "completion \<Rightarrow> StreamDispatcher" where
  "final_state (Done d) = d"
| "final_state (Thrown e d) = d"

fun raises :: "completion \<Rightarrow> bool" where
  "raises (Done d) = False"
| "raises (Thrown e d) = True"

text \<open>The state in which the synchronous part of a task leaves the dispatcher.\<close>

fun first_state :: "task \<Rightarrow> StreamDispatcher" where
  "first_state (Finished c) = final_state c"
| "first_state (Await d p k) = d"

text \<open>Resuming a suspended task with a settlement, on the dispatcher as it is then.\<close>

fun resume :: "task \<Rightarrow> settled \<Rightarrow> StreamDispatcher \<Rightarrow> completion" where
  "resume (Await d p k) s d' = k s d'"
| "resume (Finished c) s d' = c"

fun awaited :: "task \<Rightarrow> promise option" where
  "awaited (Await d p k) = Some p"
| "awaited (Finished c) = None"

text \<open>\<^verbatim>\<open>try { ... } finally { f }\<close>: \<open>f\<close> runs on both exits.\<close>

fun try_finally :: "completion \<Rightarrow> (StreamDispatcher \<Rightarrow> StreamDispatcher) \<Rightarrow> completion" where
  "try_finally (Done d) f = Done (f d)"
| "try_finally (Thrown e d) f = Thrown e (f d)"

section \<open>Calls into the voice library\<close>

text \<open>
  \<^verbatim>\<open>VoiceConnection.destroy()\<close> throws on a connection that is already destroyed
  (the error that \<^verbatim>\<open>disconnect\<close> suppresses); otherwise the connection's status
  becomes \<^verbatim>\<open>Destroyed\<close>.
\<close>

definition voiceConnection_destroy :: "StreamDispatcher \<Rightarrow> js_error + StreamDispatcher" where
  "voiceConnection_destroy d =
     (if vc_status (state (voiceConnection d)) = Destroyed
      then Inl (Error ''Cannot destroy VoiceConnection - it has already been destroyed'')
      else Inr (d\<lparr>voiceConnection := (voiceConnection d)
                    \<lparr>state := \<lparr>vc_status = Destroyed, reason = None, closeCode = None\<rparr>\<rparr>,
                  trace := trace d @ [ConnectionDestroy]\<rparr>))"

text \<open>A call of \<^verbatim>\<open>destroy()\<close> that is not inside a \<^verbatim>\<open>try\<close>.\<close>

definition call_destroy :: "StreamDispatcher \<Rightarrow> completion" where
  "call_destroy d =
     (case voiceConnection_destroy d of Inl e \<Rightarrow> Thrown e d | Inr d' \<Rightarrow> Done d')"

definition voiceConnection_rejoin :: "StreamDispatcher \<Rightarrow> StreamDispatcher" where
  "voiceConnection_rejoin d = d\<lparr>trace := trace d @ [ConnectionRejoin]\<rparr>"

definition audioPlayer_stop :: "StreamDispatcher \<Rightarrow> StreamDispatcher" where
  "audioPlayer_stop d = d\<lparr>trace := trace d @ [PlayerStop]\<rparr>"

definition audioPlayer_play :: "AudioResource \<Rightarrow> StreamDispatcher \<Rightarrow> StreamDispatcher" where
  "audioPlayer_play r d = d\<lparr>trace := trace d @ [PlayerPlay r]\<rparr>"

definition emit :: "VoiceEvent \<Rightarrow> StreamDispatcher \<Rightarrow> StreamDispatcher" where
  "emit ev d = d\<lparr>trace := trace d @ [Emit ev]\<rparr>"

text \<open>
  Modelled from the spec: the volume control of a resource belongs to the audio library
  and is not among the sources; its logarithmic setter applies "the volume curve (power
  1.660964)" and stores the result as the volume.
\<close>

definition setVolumeLogarithmic ::
  "arith \<Rightarrow> number \<Rightarrow> VolumeTransformer \<Rightarrow> VolumeTransformer" where
  "setVolumeLogarithmic a v t = t\<lparr>vt_volume := Math_pow a v 1.660964\<rparr>"

section \<open>The dispatcher's methods and handlers\<close>

text \<open>The getter \<^verbatim>\<open>paused\<close>.\<close>

definition paused :: "StreamDispatcher \<Rightarrow> bool" where
  "paused d = (ap_status (ap_state (audioPlayer d)) \<in> set [AutoPaused, Paused])"

text \<open>\<^verbatim>\<open>end()\<close>.\<close>

definition end_player :: "StreamDispatcher \<Rightarrow> StreamDispatcher" where
  "end_player d = audioPlayer_stop d"

text \<open>\<^verbatim>\<open>disconnect()\<close>: \<^verbatim>\<open>try { this.voiceConnection.destroy(); } catch {}\<close>.\<close>

definition disconnect :: "StreamDispatcher \<Rightarrow> completion" where
  "disconnect d =
     (case voiceConnection_destroy d of Inl e \<Rightarrow> Done d | Inr d' \<Rightarrow> Done d')"

text \<open>The handler of the connection's \<^verbatim>\<open>stateChange\<close> event (lines 61 to 87).\<close>

definition voiceConnection_stateChange :: "VoiceConnectionState \<Rightarrow> StreamDispatcher \<Rightarrow> task" where
  "voiceConnection_stateChange newState d =
     (if vc_status newState = Disconnected then
        (if reason newState = Some WebSocketClose \<and> closeCode newState = Some 4014 then
           Await d (EntersState Connecting 5000)
             (\<lambda>s d'. case s of Resolved \<Rightarrow> Done d' | Rejected e \<Rightarrow> call_destroy d')
         else if rejoinAttempts (voiceConnection d) < 5 then
           Await d (UtilWait ((rejoinAttempts (voiceConnection d) + 1) * 5000))
             (\<lambda>s d'. case s of Resolved \<Rightarrow> Done (voiceConnection_rejoin d')
                              | Rejected e \<Rightarrow> Thrown e d')
         else Finished (call_destroy d))
      else if vc_status newState = Destroyed then Finished (Done (end_player d))
      else if \<not> readyLock d \<and>
              (vc_status newState = Connecting \<or> vc_status newState = Signalling) then
        Await (d\<lparr>readyLock := True\<rparr>) (EntersState Ready 20000)
          (\<lambda>s d'. try_finally
             (case s of
                Resolved \<Rightarrow> Done d'
              | Rejected e \<Rightarrow>
                  if vc_status (state (voiceConnection d')) \<noteq> Destroyed
                  then call_destroy d' else Done d')
             (\<lambda>d''. d''\<lparr>readyLock := False\<rparr>))
      else Finished (Done d))"

text \<open>
  The handler of the player's \<^verbatim>\<open>stateChange\<close> event (lines 89 to 98). The player
  assigns its new state before it emits the event, so while the handler runs
  \<^verbatim>\<open>this.audioPlayer.state\<close> is \<^verbatim>\<open>newState\<close>, and that is the state the getter
  \<^verbatim>\<open>paused\<close> reads: the handler runs on the dispatcher \<open>d\<close> whose player is in
  \<open>newState\<close>.
\<close>

definition audioPlayer_stateChange ::
  "AudioPlayerState \<Rightarrow> AudioPlayerState \<Rightarrow> StreamDispatcher \<Rightarrow> StreamDispatcher" where
  "audioPlayer_stateChange oldState newState d0 =
     (let d = d0\<lparr>audioPlayer := (audioPlayer d0)\<lparr>ap_state := newState\<rparr>\<rparr> in
      if ap_status newState = Idle \<and> ap_status oldState \<noteq> Idle then
        (if \<not> paused d then emit VE_finish (d\<lparr>audioResource := None\<rparr>) else d)
      else if ap_status newState = Playing then
        (if \<not> paused d then emit VE_start d else d)
      else d)"

text \<open>
  \<^verbatim>\<open>createStream\<close>: the new resource has an inline volume control (at volume 1) and
  becomes the current one. The resource's identity stands for its source and options.
\<close>

definition createStream :: "nat \<Rightarrow> StreamDispatcher \<Rightarrow> AudioResource \<times> StreamDispatcher" where
  "createStream rid d =
     (let r = \<lparr>res_id = rid, res_volume = Some \<lparr>vt_volume = Num 1\<rparr>, playbackDuration = 0\<rparr>
      in (r, d\<lparr>audioResource := Some r\<rparr>))"

text \<open>
  \<^verbatim>\<open>playStream(resource = this.audioResource)\<close>: the argument is \<open>None\<close> when the
  caller passes none, and the default is then the current resource.
\<close>

definition playStream :: "AudioResource option \<Rightarrow> StreamDispatcher \<Rightarrow> task" where
  "playStream arg d =
     (let resource = (case arg of None \<Rightarrow> audioResource d | Some r \<Rightarrow> Some r) in
      case resource of
        None \<Rightarrow> Finished (Thrown (Error ''Audio resource is not available!'') d)
      | Some r \<Rightarrow>
          let d1 = (if audioResource d = None then d\<lparr>audioResource := Some r\<rparr> else d) in
          if vc_status (state (voiceConnection d1)) \<noteq> Ready then
            Await d1 (EntersState Ready 20000)
              (\<lambda>s d'. case s of Resolved \<Rightarrow> Done (audioPlayer_play r d')
                               | Rejected e \<Rightarrow> Thrown e d')
          else Finished (Done (audioPlayer_play r d1)))"

text \<open>
  \<^verbatim>\<open>setVolume\<close>. Reading \<^verbatim>\<open>setVolumeLogarithmic\<close> off a resource that has no
  volume control is a \<^verbatim>\<open>TypeError\<close>.
\<close>

definition setVolume ::
  "arith \<Rightarrow> number \<Rightarrow> StreamDispatcher \<Rightarrow> js_error + (bool \<times> StreamDispatcher)" where
  "setVolume a v d =
     (case audioResource d of
        None \<Rightarrow> Inr (False, d)
      | Some r \<Rightarrow>
          if isNaN v \<or> js_lt v (Num 0) \<or> js_gt v Infinity then Inr (False, d)
          else (case res_volume r of
                  None \<Rightarrow> Inl (TypeError ''Cannot read properties of undefined'')
                | Some t \<Rightarrow>
                    Inr (True, d\<lparr>audioResource :=
                      Some (r\<lparr>res_volume := Some (setVolumeLogarithmic a (js_div a v 100) t)\<rparr>)\<rparr>)))"

text \<open>The getter \<^verbatim>\<open>streamTime\<close>.\<close>

definition streamTime :: "StreamDispatcher \<Rightarrow> nat" where
  "streamTime d = (case audioResource d of None \<Rightarrow> 0 | Some r \<Rightarrow> playbackDuration r)"

section \<open>Example states\<close>

text \<open>
  A dispatcher as the constructor leaves it, on a connection that is being set up, and
  the same dispatcher after \<^verbatim>\<open>createStream\<close>.
\<close>

definition fresh :: StreamDispatcher where
  "fresh =
     \<lparr>voiceConnection =
        \<lparr>state = \<lparr>vc_status = Signalling, reason = None, closeCode = None\<rparr>,
         rejoinAttempts = 0\<rparr>,
      audioPlayer = \<lparr>ap_state = \<lparr>ap_status = Idle\<rparr>\<rparr>,
      audioResource = None,
      readyLock = False,
      trace = []\<rparr>"

definition loaded :: StreamDispatcher where
  "loaded = snd (createStream 1 fresh)"

text \<open>
  Connection states: a websocket closure with a code other than 4014, the closure with
  code 4014, and a connection that is connecting again.
\<close>

definition other_close :: VoiceConnectionState where
  "other_close = \<lparr>vc_status = Disconnected, reason = Some WebSocketClose, closeCode = Some 4006\<rparr>"

definition moved :: VoiceConnectionState where
  "moved = \<lparr>vc_status = Disconnected, reason = Some WebSocketClose, closeCode = Some 4014\<rparr>"

definition connecting :: VoiceConnectionState where
  "connecting = \<lparr>vc_status = Connecting, reason = None, closeCode = None\<rparr>"

text \<open>The fresh dispatcher on a connection in state \<open>st\<close> that has rejoined \<open>n\<close> times.\<close>

definition lost :: "VoiceConnectionState \<Rightarrow> nat \<Rightarrow> StreamDispatcher" where
  "lost st n = fresh\<lparr>voiceConnection := \<lparr>state = st, rejoinAttempts = n\<rparr>\<rparr>"

definition timeout :: js_error where
  "timeout = Error ''The operation was aborted''"

definition in_status :: "AudioPlayerStatus \<Rightarrow> StreamDispatcher \<Rightarrow> StreamDispatcher" where
  "in_status st d = d\<lparr>audioPlayer := \<lparr>ap_state = \<lparr>ap_status = st\<rparr>\<rparr>\<rparr>"

text \<open>A resource made by the caller, without a volume control.\<close>

definition other_resource :: AudioResource where
  "other_resource = \<lparr>res_id = 2, res_volume = None, playbackDuration = 0\<rparr>"

section \<open>The connection's handler\<close>

text \<open>
  C1. On a disconnect that is not the websocket closure with code 4014: with a counter
  below 5 the handler changes nothing, suspends on \<^verbatim>\<open>Util.wait\<close> for
  \<open>(counter + 1) * 5000\<close> milliseconds and, however that wait settles, calls
  \<^verbatim>\<open>rejoin()\<close> and nothing else; with a counter of 5 or more it does not suspend, it
  calls \<^verbatim>\<open>destroy()\<close>, the connection ends destroyed and the only call that can have
  been added to the trace is that one, so no rejoin is requested.
\<close>

theorem backoff_then_rejoin_or_destroy:
  assumes "vc_status newState = Disconnected"
    and "\<not> (reason newState = Some WebSocketClose \<and> closeCode newState = Some 4014)"
  shows "(rejoinAttempts (voiceConnection d) < 5 \<longrightarrow>
           first_state (voiceConnection_stateChange newState d) = d \<and>
           awaited (voiceConnection_stateChange newState d) =
             Some (UtilWait ((rejoinAttempts (voiceConnection d) + 1) * 5000)) \<and>
           (\<forall>s d'. can_settle (UtilWait ((rejoinAttempts (voiceConnection d) + 1) * 5000)) s \<longrightarrow>
              resume (voiceConnection_stateChange newState d) s d' =
                Done (d'\<lparr>trace := trace d' @ [ConnectionRejoin]\<rparr>))) \<and>
         (5 \<le> rejoinAttempts (voiceConnection d) \<longrightarrow>
           voiceConnection_stateChange newState d = Finished (call_destroy d) \<and>
           vc_status (state (voiceConnection (final_state (call_destroy d)))) = Destroyed \<and>
           trace (final_state (call_destroy d)) =
             (if vc_status (state (voiceConnection d)) = Destroyed then trace d
              else trace d @ [ConnectionDestroy]))"
  using assms
  by (auto simp: voiceConnection_stateChange_def voiceConnection_rejoin_def call_destroy_def
      voiceConnection_destroy_def)

theorem backoff_then_rejoin_or_destroy_witness:
  "vc_status other_close = Disconnected \<and>
   \<not> (reason other_close = Some WebSocketClose \<and> closeCode other_close = Some 4014) \<and>
   awaited (voiceConnection_stateChange other_close (lost other_close 2)) =
     Some (UtilWait 15000) \<and>
   resume (voiceConnection_stateChange other_close (lost other_close 2)) Resolved
     (lost other_close 2) = Done ((lost other_close 2)\<lparr>trace := [ConnectionRejoin]\<rparr>) \<and>
   voiceConnection_stateChange other_close (lost other_close 5) =
     Finished (call_destroy (lost other_close 5)) \<and>
   trace (final_state (call_destroy (lost other_close 5))) = [ConnectionDestroy]"
  using backoff_then_rejoin_or_destroy [of other_close "lost other_close 2"]
    backoff_then_rejoin_or_destroy [of other_close "lost other_close 5"]
  by (simp add: other_close_def lost_def fresh_def)

text \<open>
  C2. On a disconnect by the websocket closure with code 4014, whatever the counter:
  the handler changes nothing and suspends on \<^verbatim>\<open>entersState\<close> for the status
  \<^verbatim>\<open>Connecting\<close> with a timeout of 5000 milliseconds, not on the backoff wait. If the
  connection gets there the handler ends without a call; if the wait is rejected it
  calls \<^verbatim>\<open>destroy()\<close> and the connection ends destroyed. No rejoin is requested on
  either path.
\<close>

theorem moved_session_waits_once:
  assumes "vc_status newState = Disconnected"
    and "reason newState = Some WebSocketClose" and "closeCode newState = Some 4014"
  shows "first_state (voiceConnection_stateChange newState d) = d \<and>
         awaited (voiceConnection_stateChange newState d) = Some (EntersState Connecting 5000) \<and>
         (\<forall>d'. resume (voiceConnection_stateChange newState d) Resolved d' = Done d') \<and>
         (\<forall>e d'. resume (voiceConnection_stateChange newState d) (Rejected e) d' = call_destroy d' \<and>
            vc_status (state (voiceConnection (final_state (call_destroy d')))) = Destroyed \<and>
            trace (final_state (call_destroy d')) =
              (if vc_status (state (voiceConnection d')) = Destroyed then trace d'
               else trace d' @ [ConnectionDestroy]))"
  using assms
  by (auto simp: voiceConnection_stateChange_def call_destroy_def voiceConnection_destroy_def)

theorem moved_session_waits_once_witness:
  "vc_status moved = Disconnected \<and> reason moved = Some WebSocketClose \<and>
   closeCode moved = Some 4014 \<and>
   awaited (voiceConnection_stateChange moved (lost moved 0)) =
     Some (EntersState Connecting 5000) \<and>
   awaited (voiceConnection_stateChange moved (lost moved 7)) =
     Some (EntersState Connecting 5000) \<and>
   resume (voiceConnection_stateChange moved (lost moved 0)) Resolved (lost connecting 0) =
     Done (lost connecting 0) \<and>
   trace (final_state (resume (voiceConnection_stateChange moved (lost moved 0))
     (Rejected timeout) (lost moved 0))) = [ConnectionDestroy]"
  using moved_session_waits_once [of moved "lost moved 0"]
    moved_session_waits_once [of moved "lost moved 7"]
  by (simp add: moved_def lost_def fresh_def)

text \<open>
  C4. A run of the handler on \<^verbatim>\<open>Connecting\<close> or \<^verbatim>\<open>Signalling\<close> that finds the guard
  free sets it and suspends on \<^verbatim>\<open>entersState\<close> for \<^verbatim>\<open>Ready\<close> with a timeout of
  20000 milliseconds. However the wait settles and whatever the dispatcher has become
  by then, the run ends with the guard false: after success nothing else changes; after
  a rejection (the timeout or any other error) the connection is destroyed first,
  unless its status is already \<^verbatim>\<open>Destroyed\<close>, in which case \<^verbatim>\<open>destroy()\<close> is not
  called.
\<close>

theorem readyLock_released:
  assumes "\<not> readyLock d"
    and "vc_status newState = Connecting \<or> vc_status newState = Signalling"
  shows "first_state (voiceConnection_stateChange newState d) = d\<lparr>readyLock := True\<rparr> \<and>
         awaited (voiceConnection_stateChange newState d) = Some (EntersState Ready 20000) \<and>
         (\<forall>s d'. \<not> readyLock (final_state (resume (voiceConnection_stateChange newState d) s d'))) \<and>
         (\<forall>d'. resume (voiceConnection_stateChange newState d) Resolved d' =
            Done (d'\<lparr>readyLock := False\<rparr>)) \<and>
         (\<forall>e d'. resume (voiceConnection_stateChange newState d) (Rejected e) d' =
            (if vc_status (state (voiceConnection d')) \<noteq> Destroyed
             then Done (d'\<lparr>voiceConnection := (voiceConnection d')
                      \<lparr>state := \<lparr>vc_status = Destroyed, reason = None, closeCode = None\<rparr>\<rparr>,
                    trace := trace d' @ [ConnectionDestroy], readyLock := False\<rparr>)
             else Done (d'\<lparr>readyLock := False\<rparr>)))"
  using assms
  by (auto simp: voiceConnection_stateChange_def call_destroy_def voiceConnection_destroy_def
      split: settled.splits)

theorem readyLock_released_witness:
  "\<not> readyLock fresh \<and> vc_status connecting = Connecting \<and>
   readyLock (first_state (voiceConnection_stateChange connecting fresh)) \<and>
   awaited (voiceConnection_stateChange connecting fresh) = Some (EntersState Ready 20000) \<and>
   resume (voiceConnection_stateChange connecting fresh) Resolved (fresh\<lparr>readyLock := True\<rparr>) =
     Done fresh \<and>
   \<not> readyLock (final_state (resume (voiceConnection_stateChange connecting fresh)
     (Rejected timeout) (fresh\<lparr>readyLock := True\<rparr>))) \<and>
   trace (final_state (resume (voiceConnection_stateChange connecting fresh)
     (Rejected timeout) (fresh\<lparr>readyLock := True\<rparr>))) = [ConnectionDestroy]"
  using readyLock_released [of fresh connecting]
  by (simp add: connecting_def fresh_def)

section \<open>The player's handler\<close>

lemma not_paused_when_idle:
  "ap_status (ap_state (audioPlayer d)) = Idle \<Longrightarrow> \<not> paused d"
  by (simp add: paused_def)

text \<open>
  Every transition of the player into \<^verbatim>\<open>Idle\<close> from another status, the paused ones
  included, empties the current resource and emits one \<^verbatim>\<open>finish\<close> event: the test
  \<^verbatim>\<open>!this.paused\<close> reads the status the player has already taken, \<^verbatim>\<open>Idle\<close>.
\<close>

lemma idle_always_finishes:
  assumes "ap_status newState = Idle" and "ap_status oldState \<noteq> Idle"
  shows "audioPlayer_stateChange oldState newState d =
           d\<lparr>audioPlayer := (audioPlayer d)\<lparr>ap_state := newState\<rparr>,
             audioResource := None, trace := trace d @ [Emit VE_finish]\<rparr>"
  using assms by (simp add: audioPlayer_stateChange_def emit_def paused_def)

text \<open>
  C6. The dispatcher is paused, with a current resource, and its player goes from
  \<^verbatim>\<open>Paused\<close> to \<^verbatim>\<open>Idle\<close>: the handler empties the current resource and emits a
  \<^verbatim>\<open>finish\<close> event, where a transition while paused was to emit none and keep the
  resource.
\<close>

theorem finish_emitted_from_paused:
  "paused (in_status Paused loaded) \<and>
   audioResource (in_status Paused loaded) = Some (fst (createStream 1 fresh)) \<and>
   audioPlayer_stateChange \<lparr>ap_status = Paused\<rparr> \<lparr>ap_status = Idle\<rparr> (in_status Paused loaded) =
     (in_status Idle loaded)\<lparr>audioResource := None, trace := [Emit VE_finish]\<rparr>"
  by (simp add: audioPlayer_stateChange_def emit_def paused_def in_status_def loaded_def
      createStream_def fresh_def Let_def)

section \<open>playStream\<close>

text \<open>
  C5. Called with no argument on a dispatcher that has no current resource,
  \<^verbatim>\<open>playStream\<close> fails at once with the error "Audio resource is not available!" and
  leaves the dispatcher as it was, so the player is not called. With a resource (the
  argument, or the current one when there is no argument) and a connection that is not
  \<^verbatim>\<open>Ready\<close>, it suspends on \<^verbatim>\<open>entersState\<close> for \<^verbatim>\<open>Ready\<close> with a timeout of
  20000 milliseconds without having called the player; it calls \<^verbatim>\<open>play\<close> on the
  resource when the wait succeeds, and fails with the wait's error when it does not.
\<close>

theorem playStream_unavailable_or_waits:
  "(audioResource d = None \<longrightarrow>
      playStream None d = Finished (Thrown (Error ''Audio resource is not available!'') d)) \<and>
   ((arg = Some r \<or> arg = None \<and> audioResource d = Some r) \<and>
    vc_status (state (voiceConnection d)) \<noteq> Ready \<longrightarrow>
      awaited (playStream arg d) = Some (EntersState Ready 20000) \<and>
      trace (first_state (playStream arg d)) = trace d \<and>
      (\<forall>d'. resume (playStream arg d) Resolved d' = Done (d'\<lparr>trace := trace d' @ [PlayerPlay r]\<rparr>)) \<and>
      (\<forall>e d'. resume (playStream arg d) (Rejected e) d' = Thrown e d'))"
  by (auto simp: playStream_def audioPlayer_play_def)

theorem playStream_unavailable_or_waits_witness:
  "audioResource fresh = None \<and>
   playStream None fresh = Finished (Thrown (Error ''Audio resource is not available!'') fresh) \<and>
   audioResource loaded = Some (fst (createStream 1 fresh)) \<and>
   vc_status (state (voiceConnection loaded)) \<noteq> Ready \<and>
   awaited (playStream None loaded) = Some (EntersState Ready 20000) \<and>
   trace (first_state (playStream None loaded)) = [] \<and>
   resume (playStream None loaded) Resolved loaded =
     Done (loaded\<lparr>trace := [PlayerPlay (fst (createStream 1 fresh))]\<rparr>) \<and>
   resume (playStream None loaded) (Rejected timeout) loaded = Thrown timeout loaded"
  using playStream_unavailable_or_waits [of fresh None "fst (createStream 1 fresh)"]
    playStream_unavailable_or_waits [of loaded None "fst (createStream 1 fresh)"]
  by (simp add: loaded_def createStream_def fresh_def Let_def)

text \<open>
  C9. \<^verbatim>\<open>playStream(r)\<close> on a dispatcher that has a current resource \<open>c\<close> leaves \<open>c\<close>
  current, when it suspends and when it ends (as long as nothing else replaced \<open>c\<close>
  during the wait), while the resource handed to the player is \<open>r\<close>; on a dispatcher
  that has no current resource it stores \<open>r\<close> as current.
\<close>

theorem playStream_keeps_current:
  "(audioResource d = Some c \<longrightarrow>
      audioResource (first_state (playStream (Some r) d)) = Some c \<and>
      (\<forall>s d'. audioResource d' = Some c \<longrightarrow>
         audioResource (final_state (resume (playStream (Some r) d) s d')) = Some c) \<and>
      (vc_status (state (voiceConnection d)) = Ready \<longrightarrow>
         playStream (Some r) d = Finished (Done (d\<lparr>trace := trace d @ [PlayerPlay r]\<rparr>))) \<and>
      (vc_status (state (voiceConnection d)) \<noteq> Ready \<longrightarrow>
         first_state (playStream (Some r) d) = d \<and>
         (\<forall>d'. resume (playStream (Some r) d) Resolved d' =
            Done (d'\<lparr>trace := trace d' @ [PlayerPlay r]\<rparr>)))) \<and>
   (audioResource d = None \<longrightarrow>
      audioResource (first_state (playStream (Some r) d)) = Some r)"
  by (auto simp: playStream_def audioPlayer_play_def split: settled.splits)

theorem playStream_keeps_current_witness:
  "audioResource loaded = Some (fst (createStream 1 fresh)) \<and>
   fst (createStream 1 fresh) \<noteq> other_resource \<and>
   audioResource (first_state (playStream (Some other_resource) loaded)) =
     Some (fst (createStream 1 fresh)) \<and>
   resume (playStream (Some other_resource) loaded) Resolved loaded =
     Done (loaded\<lparr>trace := [PlayerPlay other_resource]\<rparr>) \<and>
   audioResource fresh = None \<and>
   audioResource (first_state (playStream (Some other_resource) fresh)) = Some other_resource"
  using playStream_keeps_current [of loaded "fst (createStream 1 fresh)" other_resource]
    playStream_keeps_current [of fresh "fst (createStream 1 fresh)" other_resource]
  by (simp add: loaded_def createStream_def fresh_def other_resource_def Let_def)

section \<open>disconnect\<close>

text \<open>
  C7. \<^verbatim>\<open>disconnect()\<close> never raises to its caller, whatever the state of the
  dispatcher, and leaves the connection destroyed. Called a second time in succession
  it finds the connection destroyed: the call of \<^verbatim>\<open>destroy()\<close> throws, the error is
  discarded and the dispatcher is left as it was.
\<close>

theorem disconnect_never_raises:
  "\<not> raises (disconnect d) \<and>
   vc_status (state (voiceConnection (final_state (disconnect d)))) = Destroyed \<and>
   (\<exists>e. voiceConnection_destroy (final_state (disconnect d)) = Inl e) \<and>
   disconnect (final_state (disconnect d)) = Done (final_state (disconnect d))"
  by (simp add: disconnect_def voiceConnection_destroy_def)

section \<open>Volume\<close>

lemma setVolume_rejects_iff:
  assumes "audioResource d = Some r" and "res_volume r = Some t"
  shows "(\<exists>d'. setVolume a v d = Inr (False, d')) \<longleftrightarrow> (v = NaN \<or> js_lt v (Num 0))"
  using assms
  by (cases v) (auto simp: setVolume_def isNaN_def js_gt_def)

lemma setVolume_no_resource:
  "audioResource d = None \<Longrightarrow> setVolume a v d = Inr (False, d)"
  by (simp add: setVolume_def)

text \<open>
  C3. The guard of \<^verbatim>\<open>setVolume\<close> ends with \<^verbatim>\<open>value > Infinity\<close>, which no number
  satisfies. On the dispatcher that has a resource from \<^verbatim>\<open>createStream\<close>,
  \<^verbatim>\<open>setVolume(Infinity)\<close> therefore returns \<^verbatim>\<open>true\<close> and stores an infinite volume,
  whatever the runtime's arithmetic on finite values, where a value that is not finite
  was to be rejected with \<^verbatim>\<open>false\<close>.
\<close>

theorem setVolume_Infinity_accepted:
  "setVolume a Infinity loaded =
     Inr (True, loaded\<lparr>audioResource :=
       Some \<lparr>res_id = 1, res_volume = Some \<lparr>vt_volume = Infinity\<rparr>, playbackDuration = 0\<rparr>\<rparr>)"
  by (simp add: setVolume_def loaded_def createStream_def fresh_def isNaN_def js_gt_def
      setVolumeLogarithmic_def Let_def)

end
